theory Spec2Isabelle
  imports Main
begin

section \<open>JavaScript values\<close>

text \<open>
  The views exchange JSON with the server and pass option objects around. A value is one
  of the JSON shapes, plus \<open>undefined\<close>. Numbers are the integer-valued ones (the code
  only builds \<open>0\<close> and \<open>1\<close>). A nested object is an association list with distinct keys;
  a flat dictionary that the code reads and extends by key (options, request data, the
  widget's parameter set, a Backbone model's attributes) is a map.
\<close>

datatype js =
    JUndefined
  | JNull
  | JBool bool
  | JNum int
  | JStr string
  | JArr "js list"
  | JObj "(string \<times> js) list"

type_synonym js_obj = "string \<rightharpoonup> js"

datatype js_error = ReferenceError string | TypeError

text \<open>\<open>ToBoolean\<close>: what \<open>if (x)\<close>, \<open>!x\<close> and \<open>x ? a : b\<close> test.\<close>

fun truthy :: "js \<Rightarrow> bool" where
  "truthy JUndefined = False"
| "truthy JNull = False"
| "truthy (JBool b) = b"
| "truthy (JNum n) = (n \<noteq> 0)"
| "truthy (JStr s) = (s \<noteq> [])"
| "truthy (JArr xs) = True"
| "truthy (JObj kvs) = True"

text \<open>
  Reading a property \<open>data.k\<close> for a name \<open>k\<close> that is no built-in member (the code reads
  \<open>status\<close>, \<open>message\<close>, \<open>obj_list\<close>, \<open>field_config\<close>): \<open>null\<close> and \<open>undefined\<close> throw
  a TypeError, an object gives the value stored under the key or \<open>undefined\<close>, every
  other value gives \<open>undefined\<close>.
\<close>

fun get_prop :: "js \<Rightarrow> string \<Rightarrow> js_error + js" where
  "get_prop JUndefined k = Inl TypeError"
| "get_prop JNull k = Inl TypeError"
| "get_prop (JObj kvs) k = Inr (case map_of kvs k of Some v \<Rightarrow> v | None \<Rightarrow> JUndefined)"
| "get_prop v k = Inr JUndefined"

text \<open>\<open>model.get(attr)\<close> of a Backbone model: the attribute, or \<open>undefined\<close>.\<close>

definition model_get :: "js_obj \<Rightarrow> string \<Rightarrow> js" where
  "model_get attributes k = (case attributes k of Some v \<Rightarrow> v | None \<Rightarrow> JUndefined)"

section \<open>The admin page's host validator (datatable\_component.js, lines 162--166)\<close>

text \<open>
  The two regular expressions of \<open>domainOrIpv4\<close> use literals, character classes,
  sequence, alternation and \<open>?\<close>, under the flag \<open>i\<close>. \<open>rx_step r s\<close> lists what is left
  of \<open>s\<close> after each way \<open>r\<close> can match a prefix of it, in the order a backtracking
  matcher tries them; \<open>rx_test\<close> is \<open>RegExp.test\<close> for a pattern anchored by \<open>^\<close> and
  \<open>$\<close> (no flag \<open>m\<close>): some way consumes the whole string.
\<close>

datatype rx =
    Eps
  | Lit char
  | Cls string
  | Seq rx rx
  | Alt rx rx
  | Opt rx

definition upcase :: "char \<Rightarrow> char" where
  "upcase c =
     (case map_of (zip ''abcdefghijklmnopqrstuvwxyz'' ''ABCDEFGHIJKLMNOPQRSTUVWXYZ'') c of
        Some u \<Rightarrow> u
      | None \<Rightarrow> c)"

fun rx_step :: "rx \<Rightarrow> string \<Rightarrow> string list" where
  "rx_step Eps s = [s]"
| "rx_step (Lit c) [] = []"
| "rx_step (Lit c) (x # xs) = (if upcase x = upcase c then [xs] else [])"
| "rx_step (Cls cs) [] = []"
| "rx_step (Cls cs) (x # xs) = (if upcase x \<in> set (map upcase cs) then [xs] else [])"
| "rx_step (Seq a b) s = concat (map (rx_step b) (rx_step a s))"
| "rx_step (Alt a b) s = rx_step a s @ rx_step b s"
| "rx_step (Opt a) s = rx_step a s @ [s]"

definition rx_test :: "rx \<Rightarrow> string \<Rightarrow> bool" where
  "rx_test r s = ([] \<in> set (rx_step r s))"

definition seqs :: "rx list \<Rightarrow> rx" where
  "seqs rs = foldr Seq rs Eps"

definition lits :: "string \<Rightarrow> rx" where
  "lits s = seqs (map Lit s)"

text \<open>\<open>\d\<close> and \<open>[0-9]\<close>.\<close>

definition digit :: rx where
  "digit = Cls ''0123456789''"

text \<open>\<open>(25[0-5]|2[0-4]\d|[01]?\d\d?)\<close>; the EC2 pattern writes \<open>[0-9]\<close> for \<open>\d\<close>.\<close>

definition octet :: rx where
  "octet =
     Alt (seqs [Lit CHR ''2'', Lit CHR ''5'', Cls ''012345''])
       (Alt (seqs [Lit CHR ''2'', Cls ''01234'', digit])
          (seqs [Opt (Cls ''01''), digit, Opt digit]))"

definition ipv4regex :: rx where
  "ipv4regex =
     seqs [octet, Lit CHR ''.'', octet, Lit CHR ''.'', octet, Lit CHR ''.'', octet]"

definition ec2regex :: rx where
  "ec2regex =
     seqs [lits ''ec2-'', octet, Lit CHR ''-'', octet, Lit CHR ''-'', octet, Lit CHR ''-'', octet,
           lits ''.compute-1.amazonaws.com'']"

text \<open>
  The validator method. \<open>optional\<close> is what jQuery Validation's \<open>this.optional(element)\<close>
  answers for the field (a library call, taken as an input).
\<close>

definition domainOrIpv4 :: "bool \<Rightarrow> string \<Rightarrow> bool" where
  "domainOrIpv4 optional v = (optional \<or> rx_test ec2regex v \<or> rx_test ipv4regex v)"

section \<open>The data table component (datatable\_component.js, lines 8--122)\<close>

text \<open>
  \<open>this.options\<close>. A key the caller left out is \<open>None\<close> (so \<open>hasOwnProperty\<close> is
  \<open>\<noteq> None\<close>); \<open>objList\<close> and \<open>fieldConfig\<close> are \<open>undefined\<close> when left out.
  \<open>extraDatatableParams\<close>, when given, is an object, and every object is truthy.
\<close>

record component_options =
  serverTarget :: "string option"
  requestData :: "js_obj option"
  controlsTemplate :: "string option"
  extraDatatableParams :: "js_obj option"
  objList :: js
  fieldConfig :: js

text \<open>The handle \<open>dataTable(params)\<close> returns: the table it decorates and its parameters.\<close>

record widget =
  table_id :: string
  params :: js_obj

text \<open>What the code does to the page, the network and the libraries, in order.\<close>

datatype effect =
    HttpGet string "js_obj option"
  | FnClearTable string
  | SetHtml string
  | DataTable string js_obj
  | CreateMasterCheckbox
  | ListenToCheckboxes
  | ControlsRequest string "js_obj option"
  | Selectpicker
  | AddClass string string
  | Destroy

record data_table_component =
  options :: component_options
  el_id :: "string option"
  datatable :: "widget option"
  datatableId :: "string option"
  displayableObjList :: js
  displayableFieldConfig :: js
  effects :: "effect list"

text \<open>
  The methods the component inherits from \<open>gd.AbstractDataTableComponent\<close>, whose file
  is not part of the sources: the two normalisers and the widget's base parameters are
  inputs of the model.
\<close>

record inherited =
  makeDisplayableObjectList :: "js \<Rightarrow> js"
  makeDisplayableFieldConfig :: "js \<Rightarrow> js"
  getDataTableParams :: js_obj

definition emit :: "effect \<Rightarrow> data_table_component \<Rightarrow> data_table_component" where
  "emit e c = c\<lparr>effects := effects c @ [e]\<rparr>"

definition quoted :: "string \<Rightarrow> string" where
  "quoted s = [CHR 0x22] @ s @ [CHR 0x22]"

text \<open>The markup of lines 97--100, for the table id \<open>i\<close>.\<close>

definition table_markup :: "string \<Rightarrow> string" where
  "table_markup i =
     ''<table cellpadding='' @ quoted ''0'' @ '' cellspacing='' @ quoted ''0'' @
     '' border='' @ quoted ''0'' @ '' '' @
     ''class='' @ quoted ''table table-striped table-bordered'' @
     ''id='' @ i @ ''>'' @
     ''</table>''"

text \<open>
  \<open>updateDatatable\<close>, lines 87--121. \<open>this.$el.attr('id')\<close> is \<open>undefined\<close> for an element
  with no id, and \<open>undefined + '-datatable'\<close> is the string \<open>undefined-datatable\<close>.
  \<open>_.extend(dest, src)\<close> copies every key of \<open>src\<close> over \<open>dest\<close>: \<open>dest ++ src\<close>.
\<close>

definition updateDatatable ::
  "inherited \<Rightarrow> js \<Rightarrow> js \<Rightarrow> data_table_component \<Rightarrow> data_table_component" where
  "updateDatatable inh ol fc c =
     (let c1 = (case datatable c of
                  Some w \<Rightarrow> emit (FnClearTable (table_id w)) c
                | None \<Rightarrow> c);
          did = (case el_id c1 of Some i \<Rightarrow> i | None \<Rightarrow> ''undefined'') @ ''-datatable'';
          c2 = emit (SetHtml (table_markup did)) (c1\<lparr>datatableId := Some did\<rparr>);
          p1 = getDataTableParams inh ++ [''aaData'' \<mapsto> ol, ''aoColumns'' \<mapsto> fc];
          p2 = (case extraDatatableParams (options c2) of
                  Some ex \<Rightarrow> p1 ++ ex
                | None \<Rightarrow> p1);
          c3 = emit (DataTable did p2) (c2\<lparr>datatable := Some \<lparr>table_id = did, params = p2\<rparr>\<rparr>)
      in emit ListenToCheckboxes (emit CreateMasterCheckbox c3))"

text \<open>
  Modelled from the spec: \<open>addControlsFromTemplate\<close> is a method of
  \<open>gd.AbstractDataTableComponent\<close>, which is missing from the sources. The specification
  says that \<open>render\<close>, when a controls template path was supplied, requests a controls
  fragment (an HTTP GET to the template endpoint) and injects it beside the table; the
  model records the request with the two arguments of the call.
\<close>

definition addControlsFromTemplate ::
  "string \<Rightarrow> js_obj option \<Rightarrow> data_table_component \<Rightarrow> data_table_component" where
  "addControlsFromTemplate template rd c = emit (ControlsRequest template rd) c"

text \<open>\<open>render\<close>, lines 52--67.\<close>

definition render :: "inherited \<Rightarrow> data_table_component \<Rightarrow> data_table_component" where
  "render inh c =
     (let c1 = updateDatatable inh (displayableObjList c) (displayableFieldConfig c) c;
          c2 = (case controlsTemplate (options c1) of
                  Some t \<Rightarrow> addControlsFromTemplate t (requestData (options c1)) c1
                | None \<Rightarrow> c1)
      in emit Selectpicker c2)"

text \<open>\<open>update\<close>, lines 71--75.\<close>

definition update ::
  "inherited \<Rightarrow> js \<Rightarrow> js \<Rightarrow> data_table_component \<Rightarrow> data_table_component" where
  "update inh newObjList newFieldConfig c =
     render inh
       (c\<lparr>displayableObjList := makeDisplayableObjectList inh newObjList,
          displayableFieldConfig := makeDisplayableFieldConfig inh newFieldConfig\<rparr>)"

text \<open>
  \<open>initializeFromServerTarget\<close>, lines 32--49: the call of \<open>$.get\<close>, which returns at
  once, and the callback jQuery runs later with the response.
\<close>

definition initializeFromServerTarget ::
  "string \<Rightarrow> data_table_component \<Rightarrow> data_table_component" where
  "initializeFromServerTarget url c = emit (HttpGet url (requestData (options c))) c"

definition serverTargetResponse ::
  "inherited \<Rightarrow> js \<Rightarrow> data_table_component \<Rightarrow> js_error option \<times> data_table_component" where
  "serverTargetResponse inh response c =
     (case get_prop response ''obj_list'' of
        Inl e \<Rightarrow> (Some e, c)
      | Inr ol \<Rightarrow>
          (let c1 = c\<lparr>options := (options c)\<lparr>objList := ol\<rparr>\<rparr> in
           case get_prop response ''field_config'' of
             Inl e \<Rightarrow> (Some e, c1)
           | Inr fc \<Rightarrow>
               (None,
                render inh
                  (c1\<lparr>options := (options c1)\<lparr>fieldConfig := fc\<rparr>,
                      displayableObjList := makeDisplayableObjectList inh ol,
                      displayableFieldConfig := makeDisplayableFieldConfig inh fc\<rparr>))))"

text \<open>\<open>initialize\<close>, lines 12--30.\<close>

definition initialize :: "inherited \<Rightarrow> data_table_component \<Rightarrow> data_table_component" where
  "initialize inh c =
     (let c0 = c\<lparr>datatable := None\<rparr> in
      case serverTarget (options c0) of
        Some url \<Rightarrow> initializeFromServerTarget url c0
      | None \<Rightarrow>
          render inh
            (c0\<lparr>displayableObjList := makeDisplayableObjectList inh (objList (options c0)),
                displayableFieldConfig := makeDisplayableFieldConfig inh (fieldConfig (options c0))\<rparr>))"

text \<open>
  \<open>new gd.DataTableComponent(options)\<close>: Backbone stores the options, wraps the element
  passed as \<open>el\<close> (here: its id attribute) and calls \<open>initialize\<close>.
\<close>

definition new_DataTableComponent ::
  "inherited \<Rightarrow> component_options \<Rightarrow> string option \<Rightarrow> data_table_component" where
  "new_DataTableComponent inh opts el =
     initialize inh
       \<lparr>options = opts, el_id = el, datatable = None, datatableId = None,
        displayableObjList = JUndefined, displayableFieldConfig = JUndefined, effects = []\<rparr>"

definition is_network :: "effect \<Rightarrow> bool" where
  "is_network e = (case e of HttpGet u d \<Rightarrow> True | ControlsRequest t d \<Rightarrow> True | _ \<Rightarrow> False)"

text \<open>A parameter of the current widget, and a key of the caller's extra parameters.\<close>

definition widget_param :: "data_table_component \<Rightarrow> string \<Rightarrow> js option" where
  "widget_param c k = (case datatable c of Some w \<Rightarrow> params w k | None \<Rightarrow> None)"

definition extra_param :: "data_table_component \<Rightarrow> string \<Rightarrow> js option" where
  "extra_param c k =
     (case extraDatatableParams (options c) of Some ex \<Rightarrow> ex k | None \<Rightarrow> None)"

text \<open>The rows the current widget was given to display (its \<open>aaData\<close>), if there is a widget.\<close>

definition displayed_rows :: "data_table_component \<Rightarrow> js option" where
  "displayed_rows c = widget_param c ''aaData''"

section \<open>The Reference Genome list view (ref\_genome\_list\_view.js)\<close>

text \<open>
  \<open>gd.RefGenomeControlsComponent\<close> is defined elsewhere; the view only constructs it
  with these two options.
\<close>

record controls_component =
  controls_el :: string
  controls_datatableComponent :: "data_table_component option"

text \<open>
  The view's fields; a field never assigned is \<open>undefined\<close> (\<open>JUndefined\<close>, \<open>None\<close>).
  \<open>listening\<close> lists the \<open>listenTo\<close> registrations (the object and the event), and
  \<open>trace\<close> what the view and the components it constructs have done so far.
\<close>

record ref_genome_list_view =
  show_de_novo :: js
  model :: js_obj
  datatableComponent :: "data_table_component option"
  refGenomeControlsComponent :: "controls_component option"
  listening :: "(string \<times> string) list"
  trace :: "effect list"

text \<open>The object literal of line 26.\<close>

definition redraw_requestData :: "ref_genome_list_view \<Rightarrow> js_obj" where
  "redraw_requestData v =
     [''projectUid'' \<mapsto> model_get (model v) ''uid'',
      ''show_de_novo'' \<mapsto> JNum (if truthy (show_de_novo v) then 1 else 0)]"

text \<open>
  \<open>redrawDatatable\<close>, lines 21--37. \<open>destroy\<close> is inherited by the component from the
  missing base class; the model records the call.
\<close>

definition redrawDatatable :: "inherited \<Rightarrow> ref_genome_list_view \<Rightarrow> ref_genome_list_view" where
  "redrawDatatable inh v =
     (let v1 = (case datatableComponent v of
                  Some old \<Rightarrow> v\<lparr>trace := trace v @ [Destroy]\<rparr>
                | None \<Rightarrow> v);
          d = new_DataTableComponent inh
                \<lparr>serverTarget = Some ''/_/ref_genomes'',
                 requestData = Some (redraw_requestData v1),
                 controlsTemplate = Some ''/_/templates/reference_genome_list_controls'',
                 extraDatatableParams = None,
                 objList = JUndefined,
                 fieldConfig = JUndefined\<rparr>
                (Some ''gd-ref-genome-list-view-datatable-hook'')
      in v1\<lparr>datatableComponent := Some d,
             trace := trace v1 @ effects d,
             listening := listening v1 @ [(''datatableComponent'', ''DONE_CONTROLS_REDRAW'')]\<rparr>)"

text \<open>\<open>render\<close> and \<open>initialize\<close> of the view, lines 9--18, and its construction for a model.\<close>

definition view_render :: "inherited \<Rightarrow> ref_genome_list_view \<Rightarrow> ref_genome_list_view" where
  "view_render inh v =
     redrawDatatable inh
       (v\<lparr>show_de_novo := JBool True,
          trace := trace v @ [AddClass ''#gd-sidenav-link-refgenomes'' ''active'']\<rparr>)"

definition view_initialize :: "inherited \<Rightarrow> ref_genome_list_view \<Rightarrow> ref_genome_list_view" where
  "view_initialize inh v = view_render inh v"

definition new_RefGenomeListView :: "inherited \<Rightarrow> js_obj \<Rightarrow> ref_genome_list_view" where
  "new_RefGenomeListView inh m =
     view_initialize inh
       \<lparr>show_de_novo = JUndefined, model = m, datatableComponent = None,
        refGenomeControlsComponent = None, listening = [], trace = []\<rparr>"

text \<open>\<open>decorateControls\<close>, lines 39--52, and the listener it registers for \<open>TOGGLE_DE_NOVO\<close>.\<close>

definition decorateControls :: "ref_genome_list_view \<Rightarrow> ref_genome_list_view" where
  "decorateControls v =
     v\<lparr>refGenomeControlsComponent :=
          Some \<lparr>controls_el = ''#gd-ref-genome-list-view-datatable-hook-control'',
                controls_datatableComponent = datatableComponent v\<rparr>,
        listening := listening v @
          [(''refGenomeControlsComponent'', ''MODELS_UPDATED''),
           (''refGenomeControlsComponent'', ''TOGGLE_DE_NOVO'')]\<rparr>"

definition on_TOGGLE_DE_NOVO :: "inherited \<Rightarrow> ref_genome_list_view \<Rightarrow> ref_genome_list_view" where
  "on_TOGGLE_DE_NOVO inh v =
     redrawDatatable inh (v\<lparr>show_de_novo := JBool (\<not> truthy (show_de_novo v))\<rparr>)"

text \<open>The three signals the view listens to, each with the handler \<open>listenTo\<close> bound to it.\<close>

datatype signal = DONE_CONTROLS_REDRAW | MODELS_UPDATED | TOGGLE_DE_NOVO

fun handle :: "inherited \<Rightarrow> signal \<Rightarrow> ref_genome_list_view \<Rightarrow> ref_genome_list_view" where
  "handle inh DONE_CONTROLS_REDRAW v = decorateControls v"
| "handle inh MODELS_UPDATED v = redrawDatatable inh v"
| "handle inh TOGGLE_DE_NOVO v = on_TOGGLE_DE_NOVO inh v"

definition run :: "inherited \<Rightarrow> signal list \<Rightarrow> ref_genome_list_view \<Rightarrow> ref_genome_list_view" where
  "run inh sigs v = fold (handle inh) sigs v"

text \<open>
  A request to \<open>/_/ref_genomes\<close> is well formed for the model uid \<open>u\<close> when it carries
  \<open>projectUid = u\<close> and \<open>show_de_novo\<close> as the number 0 or 1.
\<close>

fun ref_genomes_request_ok :: "js \<Rightarrow> effect \<Rightarrow> bool" where
  "ref_genomes_request_ok u (HttpGet url d) =
     (if url = ''/_/ref_genomes'' then
        (case d of
           Some rd \<Rightarrow>
             rd ''projectUid'' = Some u \<and>
             (rd ''show_de_novo'' = Some (JNum 0) \<or> rd ''show_de_novo'' = Some (JNum 1))
         | None \<Rightarrow> False)
      else True)"
| "ref_genomes_request_ok u e = True"

section \<open>The single Reference Genome view (sample\_list\_view.js, lines 38--107)\<close>

text \<open>
  What \<open>_.template(text, data)\<close> renders, kept as the template text and the data bound
  to its placeholders.
\<close>

datatype markup = Template string "(string \<times> js) list"

definition input_template :: string where
  "input_template =
     ''<input type='' @ quoted ''hidden'' @ '' name='' @ quoted ''<%= name %>'' @
     '' value='' @ quoted ''<%= value %>'' @ ''>''"

text \<open>
  The view's model and the part of the page \<open>handleDownload\<close> works on: the children of
  the form \<open>#gd-download-form\<close> and, for each \<open>submit()\<close>, the children it was submitted
  with.
\<close>

record ref_genome_view =
  rgv_model :: js_obj
  download_form :: "markup list"
  submitted :: "markup list list"

text \<open>\<open>_appendInputFieldToForm\<close>, lines 67--72.\<close>

definition appendInputFieldToForm :: "string \<Rightarrow> js \<Rightarrow> ref_genome_view \<Rightarrow> ref_genome_view" where
  "appendInputFieldToForm name v r =
     r\<lparr>download_form := download_form r @
          [Template input_template [(''name'', JStr name), (''value'', v)]]\<rparr>"

text \<open>
  \<open>handleDownload\<close>, lines 52--64. The second field's value is the identifier
  \<open>reference_genome_uid\<close>, which the function neither declares nor takes as a parameter:
  it is looked up among the global variables \<open>globals\<close>, and evaluating it throws a
  ReferenceError when there is none, after the form was emptied and the first field
  appended, and before \<open>submit()\<close>.
\<close>

definition handleDownload ::
  "js_obj \<Rightarrow> js \<Rightarrow> ref_genome_view \<Rightarrow> js_error option \<times> ref_genome_view" where
  "handleDownload globals file_format r =
     (let r1 = r\<lparr>download_form := []\<rparr>;
          r2 = appendInputFieldToForm ''file_format'' file_format r1
      in case globals ''reference_genome_uid'' of
           None \<Rightarrow> (Some (ReferenceError ''reference_genome_uid''), r2)
         | Some uid \<Rightarrow>
             (let r3 = appendInputFieldToForm ''reference_genome_uid'' uid r2
              in (None, r3\<lparr>submitted := submitted r3 @ [download_form r3]\<rparr>)))"

text \<open>The sibling method \<open>redrawDatatable\<close> of the same view reads the uid from the model (line 80).\<close>

definition rgv_requestData :: "ref_genome_view \<Rightarrow> js_obj" where
  "rgv_requestData r = [''referenceGenomeUid'' \<mapsto> model_get (rgv_model r) ''uid'']"

section \<open>The admin home view (datatable\_component.js, lines 127--174)\<close>

text \<open>
  The page around one fieldset: the class lists of the ancestors that
  \<open>fieldset.parents(".panel")\<close> selects, and the alerts shown so far.
\<close>

record home_view =
  panels :: "string list list"
  alerts :: "js list"

definition removeClass :: "string \<Rightarrow> string list \<Rightarrow> string list" where
  "removeClass cls classes = filter (\<lambda>c. c \<noteq> cls) classes"

definition addClass :: "string \<Rightarrow> string list \<Rightarrow> string list" where
  "addClass cls classes = (if cls \<in> set classes then classes else classes @ [cls])"

text \<open>\<open>success\<close> and \<open>error\<close>, lines 134--140.\<close>

definition success :: "js \<Rightarrow> home_view \<Rightarrow> home_view" where
  "success message h =
     h\<lparr>alerts := alerts h @ [message],
       panels := map (\<lambda>cs. addClass ''panel-success'' (removeClass ''panel-danger'' cs)) (panels h)\<rparr>"

definition error :: "js \<Rightarrow> home_view \<Rightarrow> home_view" where
  "error message h =
     h\<lparr>alerts := alerts h @ [message],
       panels := map (\<lambda>cs. addClass ''panel-danger'' (removeClass ''panel-success'' cs)) (panels h)\<rparr>"

text \<open>
  The \<open>success\<close> callback that \<open>test\<close> passes to \<open>$.ajax\<close>, lines 148--152, run by jQuery
  with the parsed response. CoffeeScript's \<open>==\<close> is JavaScript's \<open>===\<close>.
\<close>

definition test_success :: "js \<Rightarrow> home_view \<Rightarrow> js_error option \<times> home_view" where
  "test_success data h =
     (case get_prop data ''status'' of
        Inl e \<Rightarrow> (Some e, h)
      | Inr status \<Rightarrow>
          if status = JStr ''error'' then
            (case get_prop data ''message'' of
               Inl e \<Rightarrow> (Some e, h)
             | Inr message \<Rightarrow> (None, error message h))
          else (None, success (JStr ''Passed test!'') h))"

section \<open>Concrete inputs\<close>

text \<open>
  A base class whose normalisers change nothing, two row lists, a column configuration,
  and option objects for each way of constructing the component.
\<close>

definition example_inherited :: inherited where
  "example_inherited =
     \<lparr>makeDisplayableObjectList = id, makeDisplayableFieldConfig = id,
      getDataTableParams = [''bFilter'' \<mapsto> JBool True]\<rparr>"

definition rows_a :: js where
  "rows_a = JArr [JObj [(''label'', JStr ''a'')]]"

definition rows_b :: js where
  "rows_b = JArr [JObj [(''label'', JStr ''b'')], JObj [(''label'', JStr ''c'')]]"

definition rows_extra :: js where
  "rows_extra = JArr [JObj [(''label'', JStr ''x'')]]"

definition columns :: js where
  "columns = JArr [JObj [(''mData'', JStr ''label''), (''sTitle'', JStr ''Label'')]]"

definition direct_options :: component_options where
  "direct_options =
     \<lparr>serverTarget = None, requestData = None, controlsTemplate = None,
      extraDatatableParams = None, objList = rows_a, fieldConfig = columns\<rparr>"

definition overriding_options :: component_options where
  "overriding_options =
     direct_options\<lparr>extraDatatableParams := Some [''aaData'' \<mapsto> rows_extra]\<rparr>"

definition template_options :: component_options where
  "template_options =
     direct_options\<lparr>controlsTemplate := Some ''/_/templates/sample_list_controls''\<rparr>"

definition server_options :: component_options where
  "server_options =
     \<lparr>serverTarget = Some ''/_/samples'',
      requestData = Some [''projectUid'' \<mapsto> JStr ''p1''],
      controlsTemplate = Some ''/_/templates/sample_list_controls'',
      extraDatatableParams = None, objList = JUndefined, fieldConfig = JUndefined\<rparr>"

definition rendered_component :: data_table_component where
  "rendered_component = new_DataTableComponent example_inherited direct_options (Some ''hook'')"

definition overriding_component :: data_table_component where
  "overriding_component =
     new_DataTableComponent example_inherited overriding_options (Some ''hook'')"

definition project_model :: js_obj where
  "project_model = [''uid'' \<mapsto> JStr ''p1'']"

text \<open>
  A Reference Genome page for the genome \<open>abc\<close>, with no global variable at all, and
  with a global \<open>reference_genome_uid\<close> that names another genome.
\<close>

definition genome_view :: ref_genome_view where
  "genome_view = \<lparr>rgv_model = [''uid'' \<mapsto> JStr ''abc''], download_form = [], submitted = []\<rparr>"

definition no_globals :: js_obj where
  "no_globals = Map.empty"

definition other_globals :: js_obj where
  "other_globals = [''reference_genome_uid'' \<mapsto> JStr ''xyz'']"

text \<open>A fieldset inside one panel that shows the result of an earlier, passed test.\<close>

definition passed_page :: home_view where
  "passed_page = \<lparr>panels = [[''panel'', ''panel-success'']], alerts = []\<rparr>"

text \<open>The same fieldset after an earlier, failed test.\<close>

definition failed_page :: home_view where
  "failed_page = \<lparr>panels = [[''panel'', ''panel-danger'']], alerts = []\<rparr>"

definition error_response :: js where
  "error_response = JObj [(''status'', JStr ''error''), (''message'', JStr ''bad host'')]"

definition ok_response :: js where
  "ok_response = JObj [(''status'', JStr ''ok''), (''message'', JStr ''fine'')]"

section \<open>Auxiliary facts\<close>

subsection \<open>The component\<close>

lemmas comp_defs = updateDatatable_def emit_def Let_def render_def update_def
  addControlsFromTemplate_def initialize_def initializeFromServerTarget_def
  new_DataTableComponent_def

lemma datatable_updateDatatable:
  "datatable (updateDatatable inh ol fc c) =
     Some \<lparr>table_id = (case el_id c of Some i \<Rightarrow> i | None \<Rightarrow> ''undefined'') @ ''-datatable'',
           params = (getDataTableParams inh ++ [''aaData'' \<mapsto> ol, ''aoColumns'' \<mapsto> fc]) ++
                    (case extraDatatableParams (options c) of
                       Some ex \<Rightarrow> ex
                     | None \<Rightarrow> Map.empty)\<rparr>"
  by (simp add: comp_defs split: option.splits)

lemma effects_updateDatatable:
  "effects (updateDatatable inh ol fc c) =
     effects c @
     (case datatable c of Some w \<Rightarrow> [FnClearTable (table_id w)] | None \<Rightarrow> []) @
     [SetHtml (table_markup
        ((case el_id c of Some i \<Rightarrow> i | None \<Rightarrow> ''undefined'') @ ''-datatable'')),
      DataTable ((case el_id c of Some i \<Rightarrow> i | None \<Rightarrow> ''undefined'') @ ''-datatable'')
        ((getDataTableParams inh ++ [''aaData'' \<mapsto> ol, ''aoColumns'' \<mapsto> fc]) ++
         (case extraDatatableParams (options c) of Some ex \<Rightarrow> ex | None \<Rightarrow> Map.empty)),
      CreateMasterCheckbox, ListenToCheckboxes]"
  by (simp add: comp_defs split: option.splits)

lemma options_updateDatatable: "options (updateDatatable inh ol fc c) = options c"
  by (simp add: comp_defs split: option.splits)

lemma el_id_updateDatatable: "el_id (updateDatatable inh ol fc c) = el_id c"
  by (simp add: comp_defs split: option.splits)

lemma widget_param_updateDatatable:
  "widget_param (updateDatatable inh ol fc c) k =
     (case extra_param c k of
        Some v \<Rightarrow> Some v
      | None \<Rightarrow> (getDataTableParams inh ++ [''aaData'' \<mapsto> ol, ''aoColumns'' \<mapsto> fc]) k)"
  by (auto simp add: widget_param_def extra_param_def datatable_updateDatatable map_add_def
      split: option.splits)

lemma datatable_render:
  "datatable (render inh c) =
     datatable (updateDatatable inh (displayableObjList c) (displayableFieldConfig c) c)"
  by (simp add: render_def Let_def emit_def addControlsFromTemplate_def split: option.splits)

lemma effects_render:
  "effects (render inh c) =
     effects (updateDatatable inh (displayableObjList c) (displayableFieldConfig c) c) @
     (case controlsTemplate (options c) of
        Some t \<Rightarrow> [ControlsRequest t (requestData (options c))]
      | None \<Rightarrow> []) @
     [Selectpicker]"
  by (simp add: render_def Let_def emit_def addControlsFromTemplate_def options_updateDatatable
      split: option.splits)

lemma options_render: "options (render inh c) = options c"
  by (simp add: render_def Let_def emit_def addControlsFromTemplate_def options_updateDatatable
      split: option.splits)

lemma el_id_render: "el_id (render inh c) = el_id c"
  by (simp add: render_def Let_def emit_def addControlsFromTemplate_def el_id_updateDatatable
      split: option.splits)

lemma displayable_updateDatatable:
  "displayableObjList (updateDatatable inh ol fc c) = displayableObjList c"
  "displayableFieldConfig (updateDatatable inh ol fc c) = displayableFieldConfig c"
  by (simp_all add: comp_defs split: option.splits)

lemma displayable_render:
  "displayableObjList (render inh c) = displayableObjList c"
  "displayableFieldConfig (render inh c) = displayableFieldConfig c"
  by (simp_all add: render_def Let_def emit_def addControlsFromTemplate_def
      displayable_updateDatatable split: option.splits)

text \<open>Construction from direct data: the widget and the requests.\<close>

lemma datatable_new_direct:
  "serverTarget opts = None \<Longrightarrow>
   datatable (new_DataTableComponent inh opts el) =
     Some \<lparr>table_id = (case el of Some i \<Rightarrow> i | None \<Rightarrow> ''undefined'') @ ''-datatable'',
           params = (getDataTableParams inh ++
                       [''aaData'' \<mapsto> makeDisplayableObjectList inh (objList opts),
                        ''aoColumns'' \<mapsto> makeDisplayableFieldConfig inh (fieldConfig opts)]) ++
                    (case extraDatatableParams opts of Some ex \<Rightarrow> ex | None \<Rightarrow> Map.empty)\<rparr>"
  by (simp add: new_DataTableComponent_def initialize_def Let_def datatable_render
      datatable_updateDatatable)

lemma effects_new_direct:
  "serverTarget opts = None \<Longrightarrow>
   filter is_network (effects (new_DataTableComponent inh opts el)) =
     (case controlsTemplate opts of
        Some t \<Rightarrow> [ControlsRequest t (requestData opts)]
      | None \<Rightarrow> [])"
  by (simp add: new_DataTableComponent_def initialize_def Let_def effects_render
      effects_updateDatatable is_network_def split: option.splits)

lemma options_new_direct:
  "serverTarget opts = None \<Longrightarrow> options (new_DataTableComponent inh opts el) = opts"
  by (simp add: new_DataTableComponent_def initialize_def Let_def options_render)

lemma el_id_new_direct:
  "serverTarget opts = None \<Longrightarrow> el_id (new_DataTableComponent inh opts el) = el"
  by (simp add: new_DataTableComponent_def initialize_def Let_def el_id_render)

text \<open>Construction from a server target: nothing but the request.\<close>

lemma new_server_component:
  "new_DataTableComponent inh
     \<lparr>serverTarget = Some url, requestData = rd, controlsTemplate = ct,
      extraDatatableParams = ex, objList = ol, fieldConfig = fc\<rparr> el =
   \<lparr>options = \<lparr>serverTarget = Some url, requestData = rd, controlsTemplate = ct,
      extraDatatableParams = ex, objList = ol, fieldConfig = fc\<rparr>,
    el_id = el, datatable = None, datatableId = None,
    displayableObjList = JUndefined, displayableFieldConfig = JUndefined,
    effects = [HttpGet url rd]\<rparr>"
  by (simp add: new_DataTableComponent_def initialize_def Let_def initializeFromServerTarget_def
      emit_def)

text \<open>When the response arrives, its rows are normalised and drawn.\<close>

lemma serverTargetResponse_draws:
  "extra_param c ''aaData'' = None \<Longrightarrow>
   serverTargetResponse inh (JObj kvs) c = (e, c') \<Longrightarrow>
   e = None \<and>
   displayed_rows c' =
     Some (makeDisplayableObjectList inh
        (case map_of kvs ''obj_list'' of Some v \<Rightarrow> v | None \<Rightarrow> JUndefined))"
  by (auto simp add: serverTargetResponse_def Let_def displayed_rows_def widget_param_def
      extra_param_def datatable_render datatable_updateDatatable map_add_def split: option.splits)

text \<open>The two example components.\<close>

lemma overriding_component_facts:
  "options overriding_component = overriding_options"
  "el_id overriding_component = Some ''hook''"
  "datatable overriding_component \<noteq> None"
  "map_option table_id (datatable overriding_component) = Some ''hook-datatable''"
  by (simp_all add: overriding_component_def options_new_direct el_id_new_direct
      datatable_new_direct overriding_options_def direct_options_def)

lemma rendered_component_facts:
  "options rendered_component = direct_options"
  "el_id rendered_component = Some ''hook''"
  "datatable rendered_component \<noteq> None"
  "map_option table_id (datatable rendered_component) = Some ''hook-datatable''"
  by (simp_all add: rendered_component_def options_new_direct el_id_new_direct
      datatable_new_direct direct_options_def)

subsection \<open>The list view\<close>

lemma trace_redrawDatatable:
  "trace (redrawDatatable inh v) =
     trace v @ (case datatableComponent v of Some old \<Rightarrow> [Destroy] | None \<Rightarrow> []) @
     [HttpGet ''/_/ref_genomes'' (Some (redraw_requestData v))]"
  by (simp add: redrawDatatable_def Let_def new_server_component redraw_requestData_def
      split: option.splits)

lemma model_redrawDatatable: "model (redrawDatatable inh v) = model v"
  by (simp add: redrawDatatable_def Let_def split: option.splits)

lemma show_de_novo_redrawDatatable: "show_de_novo (redrawDatatable inh v) = show_de_novo v"
  by (simp add: redrawDatatable_def Let_def split: option.splits)

lemma datatableComponent_redrawDatatable:
  "datatableComponent (redrawDatatable inh v) \<noteq> None"
  by (simp add: redrawDatatable_def Let_def split: option.splits)

lemma requestData_redrawDatatable:
  "map_option (requestData \<circ> options) (datatableComponent (redrawDatatable inh v)) =
     Some (Some (redraw_requestData v))"
  by (simp add: redrawDatatable_def Let_def new_server_component redraw_requestData_def
      split: option.splits)

lemma model_handle: "model (handle inh s v) = model v"
  by (cases s) (simp_all add: decorateControls_def on_TOGGLE_DE_NOVO_def model_redrawDatatable)

lemma request_ok_redraw:
  "ref_genomes_request_ok (model_get (model v) ''uid'')
     (HttpGet ''/_/ref_genomes'' (Some (redraw_requestData v)))"
  by (simp add: redraw_requestData_def)

text \<open>Every handler keeps the requests sent so far well formed, and so does every run.\<close>

lemma trace_handle_ok:
  assumes "list_all (ref_genomes_request_ok (model_get (model v) ''uid'')) (trace v)"
  shows "list_all (ref_genomes_request_ok (model_get (model v) ''uid'')) (trace (handle inh s v))"
proof (cases s)
  case DONE_CONTROLS_REDRAW
  with assms show ?thesis by (simp add: decorateControls_def)
next
  case MODELS_UPDATED
  with assms request_ok_redraw [of v] show ?thesis
    by (simp add: trace_redrawDatatable split: option.splits)
next
  case TOGGLE_DE_NOVO
  let ?v = "v\<lparr>show_de_novo := JBool (\<not> truthy (show_de_novo v))\<rparr>"
  from assms request_ok_redraw [of ?v] TOGGLE_DE_NOVO show ?thesis
    by (simp add: on_TOGGLE_DE_NOVO_def trace_redrawDatatable split: option.splits)
qed

lemma trace_run_ok:
  "list_all (ref_genomes_request_ok (model_get (model v) ''uid'')) (trace v) \<Longrightarrow>
   list_all (ref_genomes_request_ok (model_get (model v) ''uid'')) (trace (run inh sigs v)) \<and>
   model (run inh sigs v) = model v"
proof (induction sigs arbitrary: v)
  case Nil
  then show ?case by (simp add: run_def)
next
  case (Cons s sigs)
  from Cons.prems
  have "list_all (ref_genomes_request_ok (model_get (model (handle inh s v)) ''uid''))
      (trace (handle inh s v))"
    by (simp add: trace_handle_ok model_handle)
  from Cons.IH [OF this] show ?case
    by (simp add: run_def model_handle)
qed

lemma new_view_ok:
  "list_all (ref_genomes_request_ok (model_get m ''uid'')) (trace (new_RefGenomeListView inh m)) \<and>
   model (new_RefGenomeListView inh m) = m"
  by (simp add: new_RefGenomeListView_def view_initialize_def view_render_def
      trace_redrawDatatable model_redrawDatatable redraw_requestData_def)

lemma example_run_trace:
  "trace (run example_inherited [DONE_CONTROLS_REDRAW, TOGGLE_DE_NOVO]
            (new_RefGenomeListView example_inherited project_model)) =
     [AddClass ''#gd-sidenav-link-refgenomes'' ''active'',
      HttpGet ''/_/ref_genomes''
        (Some [''projectUid'' \<mapsto> JStr ''p1'', ''show_de_novo'' \<mapsto> JNum 1]),
      Destroy,
      HttpGet ''/_/ref_genomes''
        (Some [''projectUid'' \<mapsto> JStr ''p1'', ''show_de_novo'' \<mapsto> JNum 0])]"
  using datatableComponent_redrawDatatable
    [of example_inherited
      "\<lparr>show_de_novo = JBool True, model = project_model, datatableComponent = None,
        refGenomeControlsComponent = None, listening = [],
        trace = [AddClass ''#gd-sidenav-link-refgenomes'' ''active'']\<rparr>"]
  by (auto simp add: run_def new_RefGenomeListView_def view_initialize_def view_render_def
      on_TOGGLE_DE_NOVO_def decorateControls_def trace_redrawDatatable redraw_requestData_def
      model_redrawDatatable show_de_novo_redrawDatatable project_model_def model_get_def)

subsection \<open>The admin page\<close>

lemma get_prop_other:
  "get_prop d k = Inr x \<Longrightarrow> get_prop d k' = Inl e \<Longrightarrow> False"
  by (cases d) simp_all

text \<open>A property can be read from every reply but \<open>null\<close> and \<open>undefined\<close>.\<close>

lemma get_prop_readable:
  "(\<exists>x. get_prop d k = Inr x) = (d \<noteq> JNull \<and> d \<noteq> JUndefined)"
  by (cases d) simp_all

lemma in_addClass: "cls \<in> set (addClass cls cs)"
  by (simp add: addClass_def)

lemma notin_addClass_removeClass:
  "a \<noteq> b \<Longrightarrow> b \<notin> set (addClass a (removeClass b cs))"
  by (simp add: addClass_def removeClass_def)

section \<open>Properties\<close>

text \<open>
  C1. The claim: \<open>handleDownload(f)\<close> empties the download form and submits it with
  exactly the fields \<open>file_format = f\<close> and \<open>reference_genome_uid =\<close> the uid of the
  view's model. The code does not read the model: on a page with no global variable
  \<open>reference_genome_uid\<close> the call stops with a ReferenceError after the first field and
  submits nothing, and on a page where such a global names another genome, that other
  uid is submitted. The sibling \<open>redrawDatatable\<close> sends the model's uid.
\<close>

theorem handleDownload_reads_global:
  "handleDownload no_globals (JStr ''fasta'') genome_view =
     (Some (ReferenceError ''reference_genome_uid''),
      genome_view\<lparr>download_form :=
        [Template input_template [(''name'', JStr ''file_format''), (''value'', JStr ''fasta'')]]\<rparr>) \<and>
   submitted (snd (handleDownload no_globals (JStr ''fasta'') genome_view)) = [] \<and>
   submitted (snd (handleDownload other_globals (JStr ''genbank'') genome_view)) =
     [[Template input_template [(''name'', JStr ''file_format''), (''value'', JStr ''genbank'')],
       Template input_template
         [(''name'', JStr ''reference_genome_uid''), (''value'', JStr ''xyz'')]]] \<and>
   model_get (rgv_model genome_view) ''uid'' = JStr ''abc'' \<and>
   rgv_requestData genome_view ''referenceGenomeUid'' = Some (JStr ''abc'')"
  by (simp add: handleDownload_def appendInputFieldToForm_def Let_def no_globals_def
      other_globals_def genome_view_def model_get_def rgv_requestData_def)

text \<open>
  C2, as amended. \<open>updateDatatable(objList, fieldConfig)\<close> clears the widget if there is
  one and, whether or not there was one, writes a fresh table element whose id is the
  hook element's id followed by \<open>-datatable\<close>, and instantiates the widget on it with
  the base parameters, extended by \<open>aaData = objList\<close> and \<open>aoColumns = fieldConfig\<close>,
  extended by the caller's extra parameters; then it wires the checkboxes. So \<open>aaData\<close>
  is \<open>objList\<close> when the extra parameters have no \<open>aaData\<close>, and likewise \<open>aoColumns\<close>.
\<close>

theorem updateDatatable_widget_params:
  "effects (updateDatatable inh ol fc c) =
     effects c @
     (case datatable c of Some w \<Rightarrow> [FnClearTable (table_id w)] | None \<Rightarrow> []) @
     [SetHtml (table_markup
        ((case el_id c of Some i \<Rightarrow> i | None \<Rightarrow> ''undefined'') @ ''-datatable'')),
      DataTable ((case el_id c of Some i \<Rightarrow> i | None \<Rightarrow> ''undefined'') @ ''-datatable'')
        ((getDataTableParams inh ++ [''aaData'' \<mapsto> ol, ''aoColumns'' \<mapsto> fc]) ++
         (case extraDatatableParams (options c) of Some ex \<Rightarrow> ex | None \<Rightarrow> Map.empty)),
      CreateMasterCheckbox, ListenToCheckboxes] \<and>
   datatable (updateDatatable inh ol fc c) =
     Some \<lparr>table_id = (case el_id c of Some i \<Rightarrow> i | None \<Rightarrow> ''undefined'') @ ''-datatable'',
           params = (getDataTableParams inh ++ [''aaData'' \<mapsto> ol, ''aoColumns'' \<mapsto> fc]) ++
                    (case extraDatatableParams (options c) of
                       Some ex \<Rightarrow> ex
                     | None \<Rightarrow> Map.empty)\<rparr> \<and>
   (extra_param c ''aaData'' = None \<longrightarrow>
      widget_param (updateDatatable inh ol fc c) ''aaData'' = Some ol) \<and>
   (extra_param c ''aoColumns'' = None \<longrightarrow>
      widget_param (updateDatatable inh ol fc c) ''aoColumns'' = Some fc)"
  by (simp add: effects_updateDatatable datatable_updateDatatable widget_param_updateDatatable)

text \<open>The amended C2 on a component drawn from direct data with no extra parameters.\<close>

theorem updateDatatable_widget_params_witness:
  "extra_param rendered_component ''aaData'' = None \<and>
   extra_param rendered_component ''aoColumns'' = None \<and>
   datatable rendered_component \<noteq> None \<and>
   widget_param (updateDatatable example_inherited rows_b columns rendered_component) ''aaData'' =
     Some rows_b \<and>
   widget_param (updateDatatable example_inherited rows_b columns rendered_component) ''aoColumns'' =
     Some columns"
proof -
  note o = rendered_component_facts(1)
  have a: "extra_param rendered_component ''aaData'' = None"
    and b: "extra_param rendered_component ''aoColumns'' = None"
    by (simp_all add: extra_param_def o direct_options_def)
  note d = rendered_component_facts(3)
  from a b d updateDatatable_widget_params [of example_inherited rows_b columns rendered_component]
  show ?thesis by simp
qed

text \<open>
  C2 as stated fails: on a component that already has a widget and whose extra parameters
  carry \<open>aaData\<close>, the call clears the widget and also writes a fresh table element, and
  the new widget's \<open>aaData\<close> is not the object list passed in.
\<close>

theorem updateDatatable_claim_counterexample:
  "datatable overriding_component \<noteq> None \<and>
   effects (updateDatatable example_inherited rows_b columns overriding_component) =
     effects overriding_component @
     [FnClearTable ''hook-datatable'', SetHtml (table_markup ''hook-datatable''),
      DataTable ''hook-datatable''
        (([''bFilter'' \<mapsto> JBool True] ++ [''aaData'' \<mapsto> rows_b, ''aoColumns'' \<mapsto> columns]) ++
         [''aaData'' \<mapsto> rows_extra]),
      CreateMasterCheckbox, ListenToCheckboxes] \<and>
   widget_param (updateDatatable example_inherited rows_b columns overriding_component) ''aaData'' \<noteq>
     Some rows_b"
proof -
  have x: "extra_param overriding_component ''aaData'' = Some rows_extra"
    by (simp add: extra_param_def overriding_component_facts overriding_options_def)
  have p: "getDataTableParams example_inherited = [''bFilter'' \<mapsto> JBool True]"
    by (simp add: example_inherited_def)
  have e: "effects (updateDatatable example_inherited rows_b columns overriding_component) =
    effects overriding_component @
    [FnClearTable ''hook-datatable'', SetHtml (table_markup ''hook-datatable''),
     DataTable ''hook-datatable''
       (([''bFilter'' \<mapsto> JBool True] ++ [''aaData'' \<mapsto> rows_b, ''aoColumns'' \<mapsto> columns]) ++
        [''aaData'' \<mapsto> rows_extra]),
     CreateMasterCheckbox, ListenToCheckboxes]"
    using overriding_component_facts(3,4)
    by (auto simp add: effects_updateDatatable overriding_component_facts(1,2) p
        overriding_options_def)
  have w: "widget_param (updateDatatable example_inherited rows_b columns overriding_component)
      ''aaData'' \<noteq> Some rows_b"
    by (simp add: widget_param_updateDatatable x rows_extra_def rows_b_def)
  from overriding_component_facts(3) e w show ?thesis by simp
qed

text \<open>
  C3. Whatever value \<open>show_de_novo\<close> starts with, handling \<open>TOGGLE_DE_NOVO\<close> twice gives
  back the request data of the start, \<open>show_de_novo\<close> included: the request data computed
  from the view, the request data of the component built by the second toggle, and the
  request sent last.
\<close>

theorem toggle_twice_requestData:
  "redraw_requestData (on_TOGGLE_DE_NOVO inh (on_TOGGLE_DE_NOVO inh v)) ''show_de_novo'' =
     redraw_requestData v ''show_de_novo'' \<and>
   map_option (requestData \<circ> options)
     (datatableComponent (on_TOGGLE_DE_NOVO inh (on_TOGGLE_DE_NOVO inh v))) =
     Some (Some (redraw_requestData v)) \<and>
   last (trace (on_TOGGLE_DE_NOVO inh (on_TOGGLE_DE_NOVO inh v))) =
     HttpGet ''/_/ref_genomes'' (Some (redraw_requestData v))"
proof -
  let ?t = "\<lambda>v. v\<lparr>show_de_novo := JBool (\<not> truthy (show_de_novo v))\<rparr>"
  have r: "redraw_requestData (?t (redrawDatatable inh (?t v))) = redraw_requestData v"
    by (simp add: redraw_requestData_def model_redrawDatatable show_de_novo_redrawDatatable)
  have "redraw_requestData (on_TOGGLE_DE_NOVO inh (on_TOGGLE_DE_NOVO inh v)) = redraw_requestData v"
    by (simp add: on_TOGGLE_DE_NOVO_def redraw_requestData_def model_redrawDatatable
        show_de_novo_redrawDatatable)
  moreover have "map_option (requestData \<circ> options)
     (datatableComponent (on_TOGGLE_DE_NOVO inh (on_TOGGLE_DE_NOVO inh v))) =
     Some (Some (redraw_requestData v))"
    unfolding on_TOGGLE_DE_NOVO_def [of inh "redrawDatatable inh (?t v)"]
      on_TOGGLE_DE_NOVO_def [of inh v]
    by (simp only: requestData_redrawDatatable r)
  moreover have "last (trace (on_TOGGLE_DE_NOVO inh (on_TOGGLE_DE_NOVO inh v))) =
     HttpGet ''/_/ref_genomes'' (Some (redraw_requestData v))"
    unfolding on_TOGGLE_DE_NOVO_def [of inh "redrawDatatable inh (?t v)"]
      on_TOGGLE_DE_NOVO_def [of inh v]
    by (simp add: trace_redrawDatatable r del: fun_upd_apply)
  ultimately show ?thesis by simp
qed

text \<open>C3 on a freshly constructed view: \<open>show_de_novo\<close> goes 1, 0, 1.\<close>

theorem toggle_twice_requestData_witness:
  "redraw_requestData (new_RefGenomeListView example_inherited project_model) ''show_de_novo'' =
     Some (JNum 1) \<and>
   redraw_requestData
     (on_TOGGLE_DE_NOVO example_inherited (new_RefGenomeListView example_inherited project_model))
     ''show_de_novo'' = Some (JNum 0) \<and>
   redraw_requestData
     (on_TOGGLE_DE_NOVO example_inherited
        (on_TOGGLE_DE_NOVO example_inherited
           (new_RefGenomeListView example_inherited project_model)))
     ''show_de_novo'' = Some (JNum 1)"
proof -
  let ?v = "new_RefGenomeListView example_inherited project_model"
  have f: "show_de_novo ?v = JBool True"
    by (simp add: new_RefGenomeListView_def view_initialize_def view_render_def
        show_de_novo_redrawDatatable)
  have a: "redraw_requestData ?v ''show_de_novo'' = Some (JNum 1)"
    by (simp add: redraw_requestData_def f)
  have b: "redraw_requestData (on_TOGGLE_DE_NOVO example_inherited ?v) ''show_de_novo'' =
      Some (JNum 0)"
    by (simp add: redraw_requestData_def on_TOGGLE_DE_NOVO_def show_de_novo_redrawDatatable f)
  from toggle_twice_requestData [of example_inherited ?v] a
  have "redraw_requestData
      (on_TOGGLE_DE_NOVO example_inherited (on_TOGGLE_DE_NOVO example_inherited ?v))
      ''show_de_novo'' = Some (JNum 1)"
    by simp
  with a b show ?thesis by simp
qed

text \<open>
  C4. For a field that is not optional, the host validator accepts \<open>192.168.1.1\<close> and
  \<open>ec2-54-1-2-3.compute-1.amazonaws.com\<close>, and rejects \<open>999.1.1.1\<close> and \<open>not-a-host\<close>.
\<close>

theorem domainOrIpv4_examples:
  "domainOrIpv4 False ''192.168.1.1'' \<and>
   domainOrIpv4 False ''ec2-54-1-2-3.compute-1.amazonaws.com'' \<and>
   \<not> domainOrIpv4 False ''999.1.1.1'' \<and>
   \<not> domainOrIpv4 False ''not-a-host''"
  by code_simp

text \<open>
  C5, as amended. For every response handed to the connection test's success callback
  that is neither \<open>null\<close> nor \<open>undefined\<close>, so that its \<open>status\<close> can be read: the
  callback finishes, and afterwards every enclosing panel has the class \<open>panel-danger\<close>
  and not \<open>panel-success\<close> if the \<open>status\<close> is the string \<open>error\<close>, and has
  \<open>panel-success\<close> and not \<open>panel-danger\<close> for every other \<open>status\<close>.
\<close>

theorem test_success_panel_classes:
  assumes "get_prop data ''status'' = Inr status"
  shows "fst (test_success data h) = None \<and>
    length (panels (snd (test_success data h))) = length (panels h) \<and>
    (\<forall>cs \<in> set (panels (snd (test_success data h))).
       if status = JStr ''error''
       then ''panel-danger'' \<in> set cs \<and> ''panel-success'' \<notin> set cs
       else ''panel-success'' \<in> set cs \<and> ''panel-danger'' \<notin> set cs)"
proof (cases "status = JStr ''error''")
  case True
  from assms obtain m where m: "get_prop data ''message'' = Inr m"
    by (cases "get_prop data ''message''") (auto dest: get_prop_other)
  from True assms m show ?thesis
    by (auto simp add: test_success_def error_def in_addClass notin_addClass_removeClass)
next
  case False
  with assms show ?thesis
    by (auto simp add: test_success_def success_def in_addClass notin_addClass_removeClass)
qed

text \<open>
  The amended C5 on a panel that shows an earlier success: an error response turns it
  to danger.
\<close>

theorem test_success_panel_classes_witness:
  "panels (snd (test_success error_response passed_page)) = [[''panel'', ''panel-danger'']] \<and>
   ''panel-danger'' \<in> set [''panel'', ''panel-danger''] \<and>
   ''panel-success'' \<notin> set [''panel'', ''panel-danger''] \<and>
   panels (snd (test_success ok_response passed_page)) = [[''panel'', ''panel-success'']]"
proof -
  have a: "get_prop error_response ''status'' = Inr (JStr ''error'')"
    by (simp add: error_response_def)
  have p: "panels (snd (test_success error_response passed_page)) = [[''panel'', ''panel-danger'']]"
    by (simp add: test_success_def error_response_def passed_page_def error_def addClass_def
        removeClass_def)
  have q: "panels (snd (test_success ok_response passed_page)) = [[''panel'', ''panel-success'']]"
    by (simp add: test_success_def ok_response_def passed_page_def success_def addClass_def
        removeClass_def)
  from test_success_panel_classes [OF a, of passed_page] p
  have "''panel-danger'' \<in> set [''panel'', ''panel-danger''] \<and>
        ''panel-success'' \<notin> set [''panel'', ''panel-danger'']"
    by simp
  with p q show ?thesis by simp
qed

text \<open>
  C5 as stated fails: the reply \<open>null\<close> (a JSON \<open>null\<close> body) is a response whose status
  is not \<open>error\<close>, and reading its \<open>status\<close> throws a TypeError before any class is
  changed; a panel that shows an earlier failure keeps \<open>panel-danger\<close> and does not get
  \<open>panel-success\<close>.
\<close>

theorem test_success_null_counterexample:
  "test_success JNull failed_page = (Some TypeError, failed_page) \<and>
   panels (snd (test_success JNull failed_page)) = [[''panel'', ''panel-danger'']] \<and>
   ''panel-success'' \<notin> set [''panel'', ''panel-danger''] \<and>
   ''panel-danger'' \<in> set [''panel'', ''panel-danger'']"
  by (simp add: test_success_def failed_page_def)

text \<open>
  C6, as amended. Constructed without \<open>serverTarget\<close>, the component normalises the two
  inputs and renders within the constructor, and sends no request for table data: the
  only request is the one for the controls fragment, made by \<open>render\<close> when a
  \<open>controlsTemplate\<close> was given. Constructed with \<open>serverTarget\<close>, the constructor does
  exactly one thing, a GET to the target with \<open>requestData\<close>, and draws nothing yet.
\<close>

theorem construction_requests:
  "(serverTarget opts = None \<longrightarrow>
      new_DataTableComponent inh opts el =
        render inh
          \<lparr>options = opts, el_id = el, datatable = None, datatableId = None,
           displayableObjList = makeDisplayableObjectList inh (objList opts),
           displayableFieldConfig = makeDisplayableFieldConfig inh (fieldConfig opts),
           effects = []\<rparr> \<and>
      datatable (new_DataTableComponent inh opts el) \<noteq> None \<and>
      filter is_network (effects (new_DataTableComponent inh opts el)) =
        (case controlsTemplate opts of
           Some t \<Rightarrow> [ControlsRequest t (requestData opts)]
         | None \<Rightarrow> [])) \<and>
   (\<forall>url. serverTarget opts = Some url \<longrightarrow>
      effects (new_DataTableComponent inh opts el) = [HttpGet url (requestData opts)] \<and>
      datatable (new_DataTableComponent inh opts el) = None)"
  by (simp add: effects_new_direct datatable_new_direct)
    (simp add: new_DataTableComponent_def initialize_def Let_def initializeFromServerTarget_def
      emit_def)

text \<open>The amended C6 on direct data without a template, and on a server target.\<close>

theorem construction_requests_witness:
  "serverTarget direct_options = None \<and>
   filter is_network
     (effects (new_DataTableComponent example_inherited direct_options (Some ''hook''))) = [] \<and>
   displayed_rows (new_DataTableComponent example_inherited direct_options (Some ''hook'')) =
     Some rows_a \<and>
   serverTarget server_options = Some ''/_/samples'' \<and>
   effects (new_DataTableComponent example_inherited server_options (Some ''hook'')) =
     [HttpGet ''/_/samples'' (Some [''projectUid'' \<mapsto> JStr ''p1''])]"
proof -
  have a: "serverTarget direct_options = None" by (simp add: direct_options_def)
  have b: "serverTarget server_options = Some ''/_/samples''" by (simp add: server_options_def)
  have d: "displayed_rows (new_DataTableComponent example_inherited direct_options (Some ''hook'')) =
      Some rows_a"
    by (simp add: displayed_rows_def widget_param_def datatable_new_direct direct_options_def
        example_inherited_def)
  from construction_requests [of direct_options example_inherited "Some ''hook''"] a
  have "filter is_network
      (effects (new_DataTableComponent example_inherited direct_options (Some ''hook''))) =
     (case controlsTemplate direct_options of
        Some t \<Rightarrow> [ControlsRequest t (requestData direct_options)]
      | None \<Rightarrow> [])"
    by blast
  then have c: "filter is_network
      (effects (new_DataTableComponent example_inherited direct_options (Some ''hook''))) = []"
    by (simp add: direct_options_def)
  from construction_requests [of server_options example_inherited "Some ''hook''"] b
  have "effects (new_DataTableComponent example_inherited server_options (Some ''hook'')) =
     [HttpGet ''/_/samples'' (requestData server_options)]"
    by blast
  then have e: "effects (new_DataTableComponent example_inherited server_options (Some ''hook'')) =
     [HttpGet ''/_/samples'' (Some [''projectUid'' \<mapsto> JStr ''p1''])]"
    by (simp add: server_options_def)
  from a b c d e show ?thesis by simp
qed

text \<open>
  C6 as stated fails: direct data together with a controls template makes the
  constructor send a request, the one for the template.
\<close>

theorem construction_request_counterexample:
  "serverTarget template_options = None \<and>
   filter is_network
     (effects (new_DataTableComponent example_inherited template_options (Some ''hook''))) =
     [ControlsRequest ''/_/templates/sample_list_controls'' None]"
  by (simp add: effects_new_direct template_options_def direct_options_def)

text \<open>
  C7. Rendering the list view sets \<open>show_de_novo\<close> to \<open>true\<close>; each \<open>redrawDatatable\<close>
  sends one GET to \<open>/_/ref_genomes\<close> whose data are the model's uid as \<open>projectUid\<close> and
  \<open>show_de_novo\<close> as 1 when the flag is truthy and 0 when it is not; and in every run of
  the view, from its construction through any sequence of the signals it listens to,
  every request to \<open>/_/ref_genomes\<close> carries that \<open>projectUid\<close> and \<open>show_de_novo\<close> as 0
  or 1.
\<close>

theorem ref_genomes_requests:
  "show_de_novo (view_render inh v) = JBool True \<and>
   trace (redrawDatatable inh v) =
     trace v @ (case datatableComponent v of Some old \<Rightarrow> [Destroy] | None \<Rightarrow> []) @
     [HttpGet ''/_/ref_genomes''
        (Some [''projectUid'' \<mapsto> model_get (model v) ''uid'',
               ''show_de_novo'' \<mapsto> JNum (if truthy (show_de_novo v) then 1 else 0)])] \<and>
   (\<forall>e \<in> set (trace (run inh sigs (new_RefGenomeListView inh m))).
      ref_genomes_request_ok (model_get m ''uid'') e)"
proof -
  have a: "show_de_novo (view_render inh v) = JBool True"
    by (simp add: view_render_def show_de_novo_redrawDatatable)
  have b: "trace (redrawDatatable inh v) =
     trace v @ (case datatableComponent v of Some old \<Rightarrow> [Destroy] | None \<Rightarrow> []) @
     [HttpGet ''/_/ref_genomes''
        (Some [''projectUid'' \<mapsto> model_get (model v) ''uid'',
               ''show_de_novo'' \<mapsto> JNum (if truthy (show_de_novo v) then 1 else 0)])]"
    by (simp add: trace_redrawDatatable redraw_requestData_def)
  from new_view_ok [of m inh]
  have "list_all (ref_genomes_request_ok (model_get (model (new_RefGenomeListView inh m)) ''uid''))
          (trace (new_RefGenomeListView inh m))"
    by simp
  from trace_run_ok [OF this, of inh sigs] new_view_ok [of m inh]
  have c: "\<forall>e \<in> set (trace (run inh sigs (new_RefGenomeListView inh m))).
      ref_genomes_request_ok (model_get m ''uid'') e"
    by (simp add: list_all_iff)
  from a b c show ?thesis by blast
qed

text \<open>C7 on a view for project \<open>p1\<close>, after its controls were drawn and the flag toggled.\<close>

theorem ref_genomes_requests_witness:
  "HttpGet ''/_/ref_genomes'' (Some [''projectUid'' \<mapsto> JStr ''p1'', ''show_de_novo'' \<mapsto> JNum 0])
     \<in> set (trace (run example_inherited [DONE_CONTROLS_REDRAW, TOGGLE_DE_NOVO]
                    (new_RefGenomeListView example_inherited project_model))) \<and>
   ref_genomes_request_ok (JStr ''p1'')
     (HttpGet ''/_/ref_genomes''
        (Some [''projectUid'' \<mapsto> JStr ''p1'', ''show_de_novo'' \<mapsto> JNum 0]))"
proof -
  let ?e = "HttpGet ''/_/ref_genomes''
      (Some [''projectUid'' \<mapsto> JStr ''p1'', ''show_de_novo'' \<mapsto> JNum 0])"
  let ?v = "new_RefGenomeListView example_inherited project_model"
  have m: "?e \<in> set (trace (run example_inherited [DONE_CONTROLS_REDRAW, TOGGLE_DE_NOVO] ?v))"
    by (simp only: example_run_trace) simp
  have u: "model_get project_model ''uid'' = JStr ''p1''"
    by (simp add: model_get_def project_model_def)
  from ref_genomes_requests
    [of example_inherited ?v "[DONE_CONTROLS_REDRAW, TOGGLE_DE_NOVO]" project_model] m
  have "ref_genomes_request_ok (model_get project_model ''uid'') ?e"
    by blast
  with m u show ?thesis by simp
qed

text \<open>
  C8, as amended. For every component, rendered or not, \<open>update(newObjList,
  newFieldConfig)\<close> clears the widget there was and draws a new one whose rows are the
  normalised new object list and nothing else, provided the caller's extra parameters
  have no \<open>aaData\<close> of their own.
\<close>

theorem update_replaces_rows:
  assumes "extra_param c ''aaData'' = None"
  shows "displayableObjList (update inh newObjList newFieldConfig c) =
      makeDisplayableObjectList inh newObjList \<and>
    displayableFieldConfig (update inh newObjList newFieldConfig c) =
      makeDisplayableFieldConfig inh newFieldConfig \<and>
    displayed_rows (update inh newObjList newFieldConfig c) =
      Some (makeDisplayableObjectList inh newObjList) \<and>
    (\<forall>w. datatable c = Some w \<longrightarrow>
       FnClearTable (table_id w) \<in> set (effects (update inh newObjList newFieldConfig c)))"
proof -
  have "displayed_rows (update inh newObjList newFieldConfig c) =
      Some (makeDisplayableObjectList inh newObjList)"
    using assms
    by (simp add: displayed_rows_def update_def widget_param_def datatable_render
        datatable_updateDatatable extra_param_def map_add_def split: option.splits)
  moreover have "\<forall>w. datatable c = Some w \<longrightarrow>
      FnClearTable (table_id w) \<in> set (effects (update inh newObjList newFieldConfig c))"
    by (simp add: update_def effects_render effects_updateDatatable)
  ultimately show ?thesis
    by (simp add: update_def displayable_render)
qed

text \<open>The amended C8 on a component that shows the rows \<open>rows_a\<close>: afterwards it shows \<open>rows_b\<close>.\<close>

theorem update_replaces_rows_witness:
  "extra_param rendered_component ''aaData'' = None \<and>
   displayed_rows rendered_component = Some rows_a \<and>
   displayed_rows (update example_inherited rows_b columns rendered_component) = Some rows_b"
proof -
  note o = rendered_component_facts(1)
  have a: "extra_param rendered_component ''aaData'' = None"
    by (simp add: extra_param_def o direct_options_def)
  have d: "displayed_rows rendered_component = Some rows_a"
    by (simp add: displayed_rows_def widget_param_def rendered_component_def datatable_new_direct
        direct_options_def example_inherited_def)
  from update_replaces_rows [OF a, of example_inherited rows_b columns] a d
  show ?thesis by (simp add: example_inherited_def)
qed

text \<open>
  C8 as stated fails: a rendered component whose extra parameters carry \<open>aaData\<close> shows,
  after \<open>update\<close>, those rows and not the new object list.
\<close>

theorem update_rows_counterexample:
  "datatable overriding_component \<noteq> None \<and>
   displayed_rows (update example_inherited rows_b columns overriding_component) \<noteq> Some rows_b"
proof -
  have x: "extra_param overriding_component ''aaData'' = Some rows_extra"
    by (simp add: extra_param_def overriding_component_facts overriding_options_def)
  have "displayed_rows (update example_inherited rows_b columns overriding_component) =
      Some rows_extra"
    using x
    by (simp add: displayed_rows_def update_def widget_param_def datatable_render
        datatable_updateDatatable extra_param_def split: option.splits)
  then show ?thesis
    using overriding_component_facts(3) by (simp add: rows_extra_def rows_b_def)
qed

text \<open>
  C9, as amended. For every response handed to the success callback that is neither
  \<open>null\<close> nor \<open>undefined\<close>, so that its \<open>status\<close> and \<open>message\<close> can be read, exactly
  one alert is added: the fixed string \<open>Passed test!\<close> when the \<open>status\<close> is not
  \<open>error\<close>, whatever the response's \<open>message\<close>, and the response's \<open>message\<close> when the
  \<open>status\<close> is \<open>error\<close>.
\<close>

theorem test_success_alert:
  assumes "get_prop data ''status'' = Inr status"
    and "get_prop data ''message'' = Inr message"
  shows "alerts (snd (test_success data h)) =
    alerts h @ [if status = JStr ''error'' then message else JStr ''Passed test!'']"
  using assms by (simp add: test_success_def error_def success_def)

text \<open>The amended C9 on a passing response that carries a message, and on a failing one.\<close>

theorem test_success_alert_witness:
  "alerts (snd (test_success ok_response passed_page)) = [JStr ''Passed test!''] \<and>
   alerts (snd (test_success error_response passed_page)) = [JStr ''bad host'']"
proof -
  have a: "get_prop ok_response ''status'' = Inr (JStr ''ok'')"
    and b: "get_prop ok_response ''message'' = Inr (JStr ''fine'')"
    by (simp_all add: ok_response_def)
  have c: "get_prop error_response ''status'' = Inr (JStr ''error'')"
    and d: "get_prop error_response ''message'' = Inr (JStr ''bad host'')"
    by (simp_all add: error_response_def)
  from test_success_alert [OF a b, of passed_page] test_success_alert [OF c d, of passed_page]
  show ?thesis by (simp add: passed_page_def)
qed

text \<open>
  C9 as stated fails: for the replies \<open>null\<close> and \<open>undefined\<close> (an empty reply), which
  are not error responses, the callback throws a TypeError when it reads \<open>status\<close> and
  shows no alert at all.
\<close>

theorem test_success_no_alert_counterexample:
  "fst (test_success JNull passed_page) = Some TypeError \<and>
   alerts (snd (test_success JNull passed_page)) = [] \<and>
   fst (test_success JUndefined passed_page) = Some TypeError \<and>
   alerts (snd (test_success JUndefined passed_page)) = []"
  by (simp add: test_success_def passed_page_def)

text \<open>
  C10. In \<open>updateDatatable\<close> the caller's extra parameters are merged last, after
  \<open>aaData\<close> and \<open>aoColumns\<close>: the widget's parameters are the base parameters, then the
  two, then the extra ones, so every key of the extra parameters, \<open>aaData\<close> and
  \<open>aoColumns\<close> among them, has the caller's value in the widget.
\<close>

theorem extraDatatableParams_override:
  assumes "extraDatatableParams (options c) = Some ex" and "ex k = Some v"
  shows "widget_param (updateDatatable inh ol fc c) k = Some v \<and>
    map_option params (datatable (updateDatatable inh ol fc c)) =
      Some ((getDataTableParams inh ++ [''aaData'' \<mapsto> ol, ''aoColumns'' \<mapsto> fc]) ++ ex)"
  using assms
  by (simp add: widget_param_updateDatatable extra_param_def datatable_updateDatatable)

text \<open>C10 on extra parameters with an \<open>aaData\<close> of their own.\<close>

theorem extraDatatableParams_override_witness:
  "extraDatatableParams (options overriding_component) = Some [''aaData'' \<mapsto> rows_extra] \<and>
   widget_param (updateDatatable example_inherited rows_b columns overriding_component) ''aaData'' =
     Some rows_extra \<and>
   rows_extra \<noteq> rows_b"
proof -
  have o: "extraDatatableParams (options overriding_component) = Some [''aaData'' \<mapsto> rows_extra]"
    by (simp add: overriding_component_facts overriding_options_def)
  have e: "[''aaData'' \<mapsto> rows_extra] ''aaData'' = Some rows_extra" by simp
  from extraDatatableParams_override [OF o e, of example_inherited rows_b columns] o
  show ?thesis by (simp add: rows_extra_def rows_b_def)
qed

end
